theory Spec2Isabelle
  imports Complex_Main "HOL-Library.Product_Lexorder"
begin

section \<open>Raw values and exceptions\<close>

text \<open>
  The parsers of \<^verbatim>\<open>cmk/utils/licensing/export.py\<close> take a value of type \<^verbatim>\<open>object\<close>, as a
  JSON decoder delivers it. \<open>raw\<close> is that universe: \<^verbatim>\<open>None\<close>, booleans, integers, strings,
  sequences (a list or a tuple: the source tests \<^verbatim>\<open>isinstance(raw, (list, tuple))\<close> and never
  tells them apart) and dictionaries with string keys, kept as association lists and read
  with \<open>map_of\<close>. Float payloads are not part of the universe.
\<close>

datatype raw =
    RNone
  | RBool bool
  | RInt int
  | RStr string
  | RList "raw list"
  | RDict "(string \<times> raw) list"

text \<open>The exceptions the source raises, directly or through a built-in.\<close>

datatype error =
    TypeError
  | ValueError
  | KeyError string
  | AttributeError
  | ZeroDivisionError

definition bnd :: "error + 'a \<Rightarrow> ('a \<Rightarrow> error + 'b) \<Rightarrow> error + 'b" where
  "bnd m f = (case m of Inl e \<Rightarrow> Inl e | Inr x \<Rightarrow> f x)"

text \<open>\<^verbatim>\<open>raw[key]\<close> on a dictionary: \<^verbatim>\<open>KeyError\<close> when the key is missing.\<close>

definition getitem :: "(string \<times> raw) list \<Rightarrow> string \<Rightarrow> error + raw" where
  "getitem d k = (case map_of d k of None \<Rightarrow> Inl (KeyError k) | Some v \<Rightarrow> Inr v)"

text \<open>Python's truth value of an object, as \<^verbatim>\<open>if not x\<close> tests it.\<close>

fun truthy :: "raw \<Rightarrow> bool" where
  "truthy RNone = False"
| "truthy (RBool b) = b"
| "truthy (RInt i) = (i \<noteq> 0)"
| "truthy (RStr s) = (s \<noteq> [])"
| "truthy (RList xs) = (xs \<noteq> [])"
| "truthy (RDict d) = (d \<noteq> [])"

subsection \<open>\<^verbatim>\<open>str\<close> and \<^verbatim>\<open>int\<close>\<close>

definition digit_char :: "nat \<Rightarrow> char" where
  "digit_char n = ''0123456789'' ! n"

function str_nat :: "nat \<Rightarrow> string" where
  "str_nat n = (if n < 10 then [digit_char n] else str_nat (n div 10) @ [digit_char (n mod 10)])"
  by pat_completeness auto
termination
  by (relation "measure id") auto

declare str_nat.simps [simp del]

definition str_int :: "int \<Rightarrow> string" where
  "str_int i = (if i < 0 then CHR ''-'' # str_nat (nat (- i)) else str_nat (nat i))"

text \<open>
  \<^verbatim>\<open>str(x)\<close> for the values that reach it in \<^verbatim>\<open>SubscriptionDetailsLimit\<close>: a string is itself,
  an integer its decimal numeral, a boolean its name. \<^verbatim>\<open>_parse\<close> calls \<^verbatim>\<open>int(raw_value)\<close>
  before \<^verbatim>\<open>str(raw_value)\<close>, and \<^verbatim>\<open>int\<close> raises on \<^verbatim>\<open>None\<close>, sequences and dictionaries, so their
  rendering is never read; \<open>None\<close> stands for it.
\<close>

fun py_str :: "raw \<Rightarrow> string option" where
  "py_str (RStr s) = Some s"
| "py_str (RInt i) = Some (str_int i)"
| "py_str (RBool b) = Some (if b then ''True'' else ''False'')"
| "py_str RNone = Some ''None''"
| "py_str (RList xs) = None"
| "py_str (RDict d) = None"

text \<open>
  \<^verbatim>\<open>int(s)\<close> on a string, for ASCII input: surrounding white space is stripped, one sign is
  allowed, then decimal digits, where single underscores may separate digits. Anything
  else is a \<^verbatim>\<open>ValueError\<close>.
\<close>

definition is_space :: "char \<Rightarrow> bool" where
  "is_space c = (c \<in> set [CHR '' '', CHR 0x09, CHR 0x0A, CHR 0x0B, CHR 0x0C, CHR 0x0D])"

definition strip :: "string \<Rightarrow> string" where
  "strip s = rev (dropWhile is_space (rev (dropWhile is_space s)))"

definition digit_val :: "char \<Rightarrow> nat option" where
  "digit_val c = (let n = (of_char c :: nat) in if 48 \<le> n \<and> n \<le> 57 then Some (n - 48) else None)"

fun parse_digits :: "nat \<Rightarrow> string \<Rightarrow> nat option" where
  "parse_digits acc [] = Some acc"
| "parse_digits acc [c] =
     (case digit_val c of None \<Rightarrow> None | Some v \<Rightarrow> Some (10 * acc + v))"
| "parse_digits acc (c # d # ds) =
     (if c = CHR ''_'' then
        (case digit_val d of None \<Rightarrow> None | Some v \<Rightarrow> parse_digits (10 * acc + v) ds)
      else
        (case digit_val c of None \<Rightarrow> None | Some v \<Rightarrow> parse_digits (10 * acc + v) (d # ds)))"

definition parse_unsigned :: "string \<Rightarrow> nat option" where
  "parse_unsigned s =
     (case s of [] \<Rightarrow> None
      | c # cs \<Rightarrow> (case digit_val c of None \<Rightarrow> None | Some v \<Rightarrow> parse_digits v cs))"

definition int_of_string :: "string \<Rightarrow> int option" where
  "int_of_string s =
     (case strip s of [] \<Rightarrow> None
      | c # cs \<Rightarrow>
          if c = CHR ''-'' then map_option (\<lambda>n. - int n) (parse_unsigned cs)
          else if c = CHR ''+'' then map_option int (parse_unsigned cs)
          else map_option int (parse_unsigned (c # cs)))"


fun py_int :: "raw \<Rightarrow> error + int" where
  "py_int (RInt i) = Inr i"
| "py_int (RBool b) = Inr (if b then 1 else 0)"
| "py_int (RStr s) = (case int_of_string s of None \<Rightarrow> Inl ValueError | Some i \<Rightarrow> Inr i)"
| "py_int RNone = Inl TypeError"
| "py_int (RList xs) = Inl TypeError"
| "py_int (RDict d) = Inl TypeError"

section \<open>Subscription details\<close>

definition SUBSCRIPTION_LIMITS_FIXED :: "string list" where
  "SUBSCRIPTION_LIMITS_FIXED =
     [''3000'', ''7000'', ''12000'', ''18000'', ''30000'', ''60000'', ''100000'', ''200000'',
      ''300000'', ''500000'', ''1000000'', ''1500000'', ''2000000'', ''2000000+'']"

datatype SubscriptionDetailsLimitType = fixed | unlimited | custom


record SubscriptionDetailsLimit =
  type' :: SubscriptionDetailsLimitType
  "value" :: int


text \<open>
  \<^verbatim>\<open>SubscriptionDetailsLimit._parse(raw_type, raw_value)\<close>. The \<^verbatim>\<open>or\<close> is short-circuit:
  \<^verbatim>\<open>int(raw_value)\<close> is evaluated only when the type tag is not one of the two unlimited tags,
  and then it may raise.
\<close>

definition parse' :: "raw \<Rightarrow> raw \<Rightarrow> error + SubscriptionDetailsLimit" where
  "parse' raw_type raw_value =
     (if raw_type \<in> set [RStr ''2000000+'', RStr ''unlimited'']
      then Inr \<lparr>type' = unlimited, value = - 1\<rparr>
      else bnd (py_int raw_value) (\<lambda>i.
        if i = - 1 then Inr \<lparr>type' = unlimited, value = - 1\<rparr>
        else if (case py_str raw_value of None \<Rightarrow> False
                 | Some s \<Rightarrow> s \<in> set SUBSCRIPTION_LIMITS_FIXED)
        then Inr \<lparr>type' = fixed, value = i\<rparr>
        else Inr \<lparr>type' = custom, value = i\<rparr>))"

text \<open>
  \<^verbatim>\<open>SubscriptionDetailsLimit.parse(raw_limit)\<close>: a sequence of length two is (tag, value); a
  scalar is its own tag, stringified. A boolean is an \<^verbatim>\<open>int\<close> for \<^verbatim>\<open>isinstance\<close>.
\<close>

fun parse :: "raw \<Rightarrow> error + SubscriptionDetailsLimit" where
  "parse (RList xs) = (case xs of [t, v] \<Rightarrow> parse' t v | _ \<Rightarrow> Inl TypeError)"
| "parse (RStr s) = parse' (RStr s) (RStr s)"
| "parse (RInt i) = parse' (RStr (str_int i)) (RInt i)"
| "parse (RBool b) = parse' (RStr (if b then ''True'' else ''False'')) (RBool b)"
| "parse RNone = Inl TypeError"
| "parse (RDict d) = Inl TypeError"

record SubscriptionDetails =
  start :: int
  end' :: int
  limit :: SubscriptionDetailsLimit

text \<open>
  \<^verbatim>\<open>_parse_subscription_details(raw)\<close>. The keyword arguments of the constructor are
  evaluated in the order written, so the first failing one decides the exception.
\<close>

definition details_of_dict :: "(string \<times> raw) list \<Rightarrow> error + SubscriptionDetails" where
  "details_of_dict d =
     bnd (bnd (getitem d ''subscription_start'') py_int) (\<lambda>s.
     bnd (bnd (getitem d ''subscription_end'') py_int) (\<lambda>e.
     bnd (bnd (getitem d ''subscription_limit'') parse) (\<lambda>l.
     Inr \<lparr>start = s, end' = e, limit = l\<rparr>)))"

fun parse_subscription_details :: "raw \<Rightarrow> error + SubscriptionDetails" where
  "parse_subscription_details (RList xs) =
     (case xs of
        [source, details] \<Rightarrow>
          (case details of RDict d \<Rightarrow> details_of_dict d | _ \<Rightarrow> Inl TypeError)
      | _ \<Rightarrow> Inl TypeError)"
| "parse_subscription_details (RDict d) = details_of_dict d"
| "parse_subscription_details RNone = Inl TypeError"
| "parse_subscription_details (RBool b) = Inl TypeError"
| "parse_subscription_details (RInt i) = Inl TypeError"
| "parse_subscription_details (RStr s) = Inl TypeError"

section \<open>Protocol version\<close>

text \<open>
  \<^verbatim>\<open>parse_protocol_version(raw)\<close>: \<^verbatim>\<open>raw.get("VERSION")\<close> is \<^verbatim>\<open>None\<close> for a missing key, which is
  not a string. The \<^verbatim>\<open>match\<close> statement is the chain of comparisons below.
\<close>

definition match_version :: "string \<Rightarrow> error + string" where
  "match_version v =
     (if v = ''1.0'' then Inr ''1.0''
      else if v = ''1.1'' then Inr ''1.1''
      else if v = ''1.2'' then Inr ''1.2''
      else if v = ''1.3'' then Inr ''1.3''
      else if v = ''1.4'' then Inr ''1.4''
      else if v = ''1.5'' then Inr ''1.5''
      else if v = ''2.0'' then Inr ''2.0''
      else if v = ''2.1'' then Inr ''2.1''
      else if v = ''3.0'' then Inr ''3.0''
      else Inl ValueError)"

fun parse_protocol_version :: "raw \<Rightarrow> error + string" where
  "parse_protocol_version (RDict d) =
     (case map_of d ''VERSION'' of
        Some (RStr v) \<Rightarrow> match_version v
      | _ \<Rightarrow> Inl TypeError)"
| "parse_protocol_version RNone = Inl TypeError"
| "parse_protocol_version (RBool b) = Inl TypeError"
| "parse_protocol_version (RInt i) = Inl TypeError"
| "parse_protocol_version (RStr s) = Inl TypeError"
| "parse_protocol_version (RList xs) = Inl TypeError"

section \<open>Samples\<close>

text \<open>\<^verbatim>\<open>d.get(key, default)\<close> on a dictionary.\<close>

definition get :: "(string \<times> raw) list \<Rightarrow> string \<Rightarrow> raw \<Rightarrow> raw" where
  "get d k dflt = (case map_of d k of None \<Rightarrow> dflt | Some v \<Rightarrow> v)"

record LicenseUsageExtensions =
  ntop :: raw

text \<open>
  \<^verbatim>\<open>LicenseUsageExtensions.parse_from_sample(raw_sample)\<close>. Python evaluates the default
  argument of the outer \<^verbatim>\<open>get\<close> before the call, so \<^verbatim>\<open>raw_sample.get("extensions", {})\<close> is
  always asked for its \<^verbatim>\<open>get\<close> method: a value under \<^verbatim>\<open>extensions\<close> that is not a dictionary is
  an \<^verbatim>\<open>AttributeError\<close>, also when \<^verbatim>\<open>extension_ntop\<close> is present.
\<close>

definition parse_from_sample :: "raw \<Rightarrow> error + LicenseUsageExtensions" where
  "parse_from_sample raw_sample =
     (case raw_sample of
        RDict d \<Rightarrow>
          (case get d ''extensions'' (RDict []) of
             RDict e \<Rightarrow> Inr \<lparr>ntop = get d ''extension_ntop'' (get e ''ntop'' (RBool False))\<rparr>
           | _ \<Rightarrow> Inl AttributeError)
      | _ \<Rightarrow> Inl TypeError)"

text \<open>
  \<^verbatim>\<open>_parse_platform(platform)\<close> is the slice \<^verbatim>\<open>platform[:50]\<close>: defined on strings and on
  sequences, a \<^verbatim>\<open>TypeError\<close> on the values that cannot be sliced.
\<close>

fun parse_platform :: "raw \<Rightarrow> error + raw" where
  "parse_platform (RStr s) = Inr (RStr (take 50 s))"
| "parse_platform (RList xs) = Inr (RList (take 50 xs))"
| "parse_platform RNone = Inl TypeError"
| "parse_platform (RBool b) = Inl TypeError"
| "parse_platform (RInt i) = Inl TypeError"
| "parse_platform (RDict d) = Inl TypeError"

text \<open>
  The dataclass \<^verbatim>\<open>LicenseUsageSample\<close> does not validate its fields: what the parsers copy out
  of the raw record is stored as it is, so these fields are raw values. The instance id is
  \<^verbatim>\<open>UUID | None\<close>; the type \<open>'u\<close> stands for \<^verbatim>\<open>uuid.UUID\<close>, and the constructor call
  \<^verbatim>\<open>UUID(raw_instance_id)\<close> of the standard library is the parameter \<open>UUID\<close> of the parsers
  that make it.
\<close>

record 'u LicenseUsageSample =
  instance_id :: "'u option"
  site_hash :: raw
  version :: raw
  edition :: raw
  platform :: raw
  is_cma :: raw
  sample_time :: raw
  timezone :: raw
  num_hosts :: raw
  num_hosts_cloud :: raw
  num_hosts_shadow :: raw
  num_hosts_excluded :: raw
  num_services :: raw
  num_services_cloud :: raw
  num_services_shadow :: raw
  num_services_excluded :: raw
  num_synthetic_tests :: raw
  num_synthetic_tests_excluded :: raw
  extension_ntop :: raw

text \<open>\<^verbatim>\<open>ParserV1_0.parse_sample\<close>.\<close>

definition parse_sample_v1_0 ::
  "'u option \<Rightarrow> string \<Rightarrow> raw \<Rightarrow> error + 'u LicenseUsageSample" where
  "parse_sample_v1_0 caller_id fallback raw =
     (case raw of
        RDict d \<Rightarrow>
          (let sh = get d ''site_hash'' (RStr fallback) in
           if \<not> truthy sh then Inl ValueError
           else
             bnd (parse_from_sample raw) (\<lambda>extensions.
             bnd (getitem d ''version'') (\<lambda>v_version.
             bnd (getitem d ''edition'') (\<lambda>v_edition.
             bnd (bnd (getitem d ''platform'') parse_platform) (\<lambda>v_platform.
             bnd (getitem d ''is_cma'') (\<lambda>v_is_cma.
             bnd (getitem d ''sample_time'') (\<lambda>v_sample_time.
             bnd (getitem d ''timezone'') (\<lambda>v_timezone.
             bnd (getitem d ''num_hosts'') (\<lambda>v_num_hosts.
             bnd (getitem d ''num_services'') (\<lambda>v_num_services.
             Inr \<lparr>instance_id = caller_id, site_hash = sh, version = v_version,
                  edition = v_edition, platform = v_platform, is_cma = v_is_cma,
                  sample_time = v_sample_time, timezone = v_timezone,
                  num_hosts = v_num_hosts, num_hosts_cloud = RInt 0,
                  num_hosts_shadow = RInt 0, num_hosts_excluded = RInt 0,
                  num_services = v_num_services, num_services_cloud = RInt 0,
                  num_services_shadow = RInt 0, num_services_excluded = RInt 0,
                  num_synthetic_tests = RInt 0, num_synthetic_tests_excluded = RInt 0,
                  extension_ntop = ntop extensions\<rparr>))))))))))
      | _ \<Rightarrow> Inl TypeError)"

text \<open>\<^verbatim>\<open>_parse_sample_v1_1\<close>, shared by the parsers of versions 1.1, 1.2 and 1.3.\<close>

definition parse_sample_v1_1 ::
  "'u option \<Rightarrow> string \<Rightarrow> raw \<Rightarrow> error + 'u LicenseUsageSample" where
  "parse_sample_v1_1 caller_id fallback raw =
     (case raw of
        RDict d \<Rightarrow>
          (let sh = get d ''site_hash'' (RStr fallback) in
           if \<not> truthy sh then Inl ValueError
           else
             bnd (parse_from_sample raw) (\<lambda>extensions.
             bnd (getitem d ''version'') (\<lambda>v_version.
             bnd (getitem d ''edition'') (\<lambda>v_edition.
             bnd (bnd (getitem d ''platform'') parse_platform) (\<lambda>v_platform.
             bnd (getitem d ''is_cma'') (\<lambda>v_is_cma.
             bnd (getitem d ''sample_time'') (\<lambda>v_sample_time.
             bnd (getitem d ''timezone'') (\<lambda>v_timezone.
             bnd (getitem d ''num_hosts'') (\<lambda>v_num_hosts.
             bnd (getitem d ''num_hosts_excluded'') (\<lambda>v_num_hosts_excluded.
             bnd (getitem d ''num_services'') (\<lambda>v_num_services.
             bnd (getitem d ''num_services_excluded'') (\<lambda>v_num_services_excluded.
             Inr \<lparr>instance_id = caller_id, site_hash = sh, version = v_version,
                  edition = v_edition, platform = v_platform, is_cma = v_is_cma,
                  sample_time = v_sample_time, timezone = v_timezone,
                  num_hosts = v_num_hosts, num_hosts_cloud = RInt 0,
                  num_hosts_shadow = RInt 0, num_hosts_excluded = v_num_hosts_excluded,
                  num_services = v_num_services, num_services_cloud = RInt 0,
                  num_services_shadow = RInt 0,
                  num_services_excluded = v_num_services_excluded,
                  num_synthetic_tests = RInt 0, num_synthetic_tests_excluded = RInt 0,
                  extension_ntop = ntop extensions\<rparr>))))))))))))
      | _ \<Rightarrow> Inl TypeError)"

text \<open>\<^verbatim>\<open>ParserV1_4.parse_sample\<close>.\<close>

definition parse_sample_v1_4 ::
  "'u option \<Rightarrow> string \<Rightarrow> raw \<Rightarrow> error + 'u LicenseUsageSample" where
  "parse_sample_v1_4 caller_id fallback raw =
     (case raw of
        RDict d \<Rightarrow>
          (let sh = get d ''site_hash'' (RStr fallback) in
           if \<not> truthy sh then Inl ValueError
           else
             bnd (parse_from_sample raw) (\<lambda>extensions.
             bnd (getitem d ''version'') (\<lambda>v_version.
             bnd (getitem d ''edition'') (\<lambda>v_edition.
             bnd (bnd (getitem d ''platform'') parse_platform) (\<lambda>v_platform.
             bnd (getitem d ''is_cma'') (\<lambda>v_is_cma.
             bnd (getitem d ''sample_time'') (\<lambda>v_sample_time.
             bnd (getitem d ''timezone'') (\<lambda>v_timezone.
             bnd (getitem d ''num_hosts'') (\<lambda>v_num_hosts.
             bnd (getitem d ''num_shadow_hosts'') (\<lambda>v_num_shadow_hosts.
             bnd (getitem d ''num_hosts_excluded'') (\<lambda>v_num_hosts_excluded.
             bnd (getitem d ''num_services'') (\<lambda>v_num_services.
             bnd (getitem d ''num_services_excluded'') (\<lambda>v_num_services_excluded.
             Inr \<lparr>instance_id = caller_id, site_hash = sh, version = v_version,
                  edition = v_edition, platform = v_platform, is_cma = v_is_cma,
                  sample_time = v_sample_time, timezone = v_timezone,
                  num_hosts = v_num_hosts, num_hosts_cloud = RInt 0,
                  num_hosts_shadow = v_num_shadow_hosts,
                  num_hosts_excluded = v_num_hosts_excluded,
                  num_services = v_num_services, num_services_cloud = RInt 0,
                  num_services_shadow = RInt 0,
                  num_services_excluded = v_num_services_excluded,
                  num_synthetic_tests = RInt 0, num_synthetic_tests_excluded = RInt 0,
                  extension_ntop = ntop extensions\<rparr>)))))))))))))
      | _ \<Rightarrow> Inl TypeError)"

text \<open>
  \<^verbatim>\<open>ParserV1_5.parse_sample\<close>. From here on the caller's instance id is not read: the id
  comes from the record, and a missing or falsy one is a \<^verbatim>\<open>ValueError\<close>, tested before
  the site hash.
\<close>

definition parse_sample_v1_5 ::
  "(raw \<Rightarrow> error + 'u) \<Rightarrow> 'u option \<Rightarrow> string \<Rightarrow> raw \<Rightarrow> error + 'u LicenseUsageSample" where
  "parse_sample_v1_5 UUID caller_id fallback raw =
     (case raw of
        RDict d \<Rightarrow>
          (let raw_instance_id = get d ''instance_id'' RNone in
           if \<not> truthy raw_instance_id then Inl ValueError
           else
             (let sh = get d ''site_hash'' (RStr fallback) in
              if \<not> truthy sh then Inl ValueError
              else
                bnd (parse_from_sample raw) (\<lambda>extensions.
                bnd (UUID raw_instance_id) (\<lambda>v_instance_id.
                bnd (getitem d ''version'') (\<lambda>v_version.
                bnd (getitem d ''edition'') (\<lambda>v_edition.
                bnd (bnd (getitem d ''platform'') parse_platform) (\<lambda>v_platform.
                bnd (getitem d ''is_cma'') (\<lambda>v_is_cma.
                bnd (getitem d ''sample_time'') (\<lambda>v_sample_time.
                bnd (getitem d ''timezone'') (\<lambda>v_timezone.
                bnd (getitem d ''num_hosts'') (\<lambda>v_num_hosts.
                bnd (getitem d ''num_shadow_hosts'') (\<lambda>v_num_shadow_hosts.
                bnd (getitem d ''num_hosts_excluded'') (\<lambda>v_num_hosts_excluded.
                bnd (getitem d ''num_services'') (\<lambda>v_num_services.
                bnd (getitem d ''num_services_excluded'') (\<lambda>v_num_services_excluded.
                Inr \<lparr>instance_id = Some v_instance_id, site_hash = sh, version = v_version,
                     edition = v_edition, platform = v_platform, is_cma = v_is_cma,
                     sample_time = v_sample_time, timezone = v_timezone,
                     num_hosts = v_num_hosts, num_hosts_cloud = RInt 0,
                     num_hosts_shadow = v_num_shadow_hosts,
                     num_hosts_excluded = v_num_hosts_excluded,
                     num_services = v_num_services, num_services_cloud = RInt 0,
                     num_services_shadow = RInt 0,
                     num_services_excluded = v_num_services_excluded,
                     num_synthetic_tests = RInt 0, num_synthetic_tests_excluded = RInt 0,
                     extension_ntop = ntop extensions\<rparr>)))))))))))))))
      | _ \<Rightarrow> Inl TypeError)"

text \<open>\<^verbatim>\<open>_parse_sample_v2_0\<close>, shared by the parsers of versions 2.0 and 2.1.\<close>

definition parse_sample_v2_0 ::
  "(raw \<Rightarrow> error + 'u) \<Rightarrow> 'u option \<Rightarrow> string \<Rightarrow> raw \<Rightarrow> error + 'u LicenseUsageSample" where
  "parse_sample_v2_0 UUID caller_id fallback raw =
     (case raw of
        RDict d \<Rightarrow>
          (let raw_instance_id = get d ''instance_id'' RNone in
           if \<not> truthy raw_instance_id then Inl ValueError
           else
             (let sh = get d ''site_hash'' (RStr fallback) in
              if \<not> truthy sh then Inl ValueError
              else
                bnd (parse_from_sample raw) (\<lambda>extensions.
                bnd (UUID raw_instance_id) (\<lambda>v_instance_id.
                bnd (getitem d ''version'') (\<lambda>v_version.
                bnd (getitem d ''edition'') (\<lambda>v_edition.
                bnd (bnd (getitem d ''platform'') parse_platform) (\<lambda>v_platform.
                bnd (getitem d ''is_cma'') (\<lambda>v_is_cma.
                bnd (getitem d ''sample_time'') (\<lambda>v_sample_time.
                bnd (getitem d ''timezone'') (\<lambda>v_timezone.
                bnd (getitem d ''num_hosts'') (\<lambda>v_num_hosts.
                bnd (getitem d ''num_hosts_cloud'') (\<lambda>v_num_hosts_cloud.
                bnd (getitem d ''num_hosts_shadow'') (\<lambda>v_num_hosts_shadow.
                bnd (getitem d ''num_hosts_excluded'') (\<lambda>v_num_hosts_excluded.
                bnd (getitem d ''num_services'') (\<lambda>v_num_services.
                bnd (getitem d ''num_services_cloud'') (\<lambda>v_num_services_cloud.
                bnd (getitem d ''num_services_shadow'') (\<lambda>v_num_services_shadow.
                bnd (getitem d ''num_services_excluded'') (\<lambda>v_num_services_excluded.
                Inr \<lparr>instance_id = Some v_instance_id, site_hash = sh, version = v_version,
                     edition = v_edition, platform = v_platform, is_cma = v_is_cma,
                     sample_time = v_sample_time, timezone = v_timezone,
                     num_hosts = v_num_hosts, num_hosts_cloud = v_num_hosts_cloud,
                     num_hosts_shadow = v_num_hosts_shadow,
                     num_hosts_excluded = v_num_hosts_excluded,
                     num_services = v_num_services,
                     num_services_cloud = v_num_services_cloud,
                     num_services_shadow = v_num_services_shadow,
                     num_services_excluded = v_num_services_excluded,
                     num_synthetic_tests = RInt 0, num_synthetic_tests_excluded = RInt 0,
                     extension_ntop = ntop extensions\<rparr>))))))))))))))))))
      | _ \<Rightarrow> Inl TypeError)"

text \<open>\<^verbatim>\<open>ParserV3_0.parse_sample\<close>.\<close>

definition parse_sample_v3_0 ::
  "(raw \<Rightarrow> error + 'u) \<Rightarrow> 'u option \<Rightarrow> string \<Rightarrow> raw \<Rightarrow> error + 'u LicenseUsageSample" where
  "parse_sample_v3_0 UUID caller_id fallback raw =
     (case raw of
        RDict d \<Rightarrow>
          (let raw_instance_id = get d ''instance_id'' RNone in
           if \<not> truthy raw_instance_id then Inl ValueError
           else
             (let sh = get d ''site_hash'' (RStr fallback) in
              if \<not> truthy sh then Inl ValueError
              else
                bnd (parse_from_sample raw) (\<lambda>extensions.
                bnd (UUID raw_instance_id) (\<lambda>v_instance_id.
                bnd (getitem d ''version'') (\<lambda>v_version.
                bnd (getitem d ''edition'') (\<lambda>v_edition.
                bnd (bnd (getitem d ''platform'') parse_platform) (\<lambda>v_platform.
                bnd (getitem d ''is_cma'') (\<lambda>v_is_cma.
                bnd (getitem d ''sample_time'') (\<lambda>v_sample_time.
                bnd (getitem d ''timezone'') (\<lambda>v_timezone.
                bnd (getitem d ''num_hosts'') (\<lambda>v_num_hosts.
                bnd (getitem d ''num_hosts_cloud'') (\<lambda>v_num_hosts_cloud.
                bnd (getitem d ''num_hosts_shadow'') (\<lambda>v_num_hosts_shadow.
                bnd (getitem d ''num_hosts_excluded'') (\<lambda>v_num_hosts_excluded.
                bnd (getitem d ''num_services'') (\<lambda>v_num_services.
                bnd (getitem d ''num_services_cloud'') (\<lambda>v_num_services_cloud.
                bnd (getitem d ''num_services_shadow'') (\<lambda>v_num_services_shadow.
                bnd (getitem d ''num_services_excluded'') (\<lambda>v_num_services_excluded.
                bnd (getitem d ''num_synthetic_tests'') (\<lambda>v_num_synthetic_tests.
                bnd (getitem d ''num_synthetic_tests_excluded'') (\<lambda>v_num_synthetic_tests_excluded.
                Inr \<lparr>instance_id = Some v_instance_id, site_hash = sh, version = v_version,
                     edition = v_edition, platform = v_platform, is_cma = v_is_cma,
                     sample_time = v_sample_time, timezone = v_timezone,
                     num_hosts = v_num_hosts, num_hosts_cloud = v_num_hosts_cloud,
                     num_hosts_shadow = v_num_hosts_shadow,
                     num_hosts_excluded = v_num_hosts_excluded,
                     num_services = v_num_services,
                     num_services_cloud = v_num_services_cloud,
                     num_services_shadow = v_num_services_shadow,
                     num_services_excluded = v_num_services_excluded,
                     num_synthetic_tests = v_num_synthetic_tests,
                     num_synthetic_tests_excluded = v_num_synthetic_tests_excluded,
                     extension_ntop = ntop extensions\<rparr>))))))))))))))))))))
      | _ \<Rightarrow> Inl TypeError)"

text \<open>The nine parser classes, and the method \<^verbatim>\<open>parse_sample\<close> each of them carries.\<close>

datatype Parser =
    ParserV1_0 | ParserV1_1 | ParserV1_2 | ParserV1_3 | ParserV1_4
  | ParserV1_5 | ParserV2_0 | ParserV2_1 | ParserV3_0

fun parse_sample ::
  "(raw \<Rightarrow> error + 'u) \<Rightarrow> Parser \<Rightarrow> 'u option \<Rightarrow> string \<Rightarrow> raw \<Rightarrow> error + 'u LicenseUsageSample"
  where
  "parse_sample UUID ParserV1_0 caller_id fallback raw = parse_sample_v1_0 caller_id fallback raw"
| "parse_sample UUID ParserV1_1 caller_id fallback raw = parse_sample_v1_1 caller_id fallback raw"
| "parse_sample UUID ParserV1_2 caller_id fallback raw = parse_sample_v1_1 caller_id fallback raw"
| "parse_sample UUID ParserV1_3 caller_id fallback raw = parse_sample_v1_1 caller_id fallback raw"
| "parse_sample UUID ParserV1_4 caller_id fallback raw = parse_sample_v1_4 caller_id fallback raw"
| "parse_sample UUID ParserV1_5 caller_id fallback raw =
     parse_sample_v1_5 UUID caller_id fallback raw"
| "parse_sample UUID ParserV2_0 caller_id fallback raw =
     parse_sample_v2_0 UUID caller_id fallback raw"
| "parse_sample UUID ParserV2_1 caller_id fallback raw =
     parse_sample_v2_0 UUID caller_id fallback raw"
| "parse_sample UUID ParserV3_0 caller_id fallback raw =
     parse_sample_v3_0 UUID caller_id fallback raw"

text \<open>
  \<^verbatim>\<open>make_parser(protocol_version)\<close>: the \<^verbatim>\<open>match\<close> has no default case, so any other string
  falls off the end of the function, which returns \<^verbatim>\<open>None\<close>.
\<close>

definition make_parser :: "string \<Rightarrow> Parser option" where
  "make_parser protocol_version =
     (if protocol_version = ''1.0'' then Some ParserV1_0
      else if protocol_version = ''1.1'' then Some ParserV1_1
      else if protocol_version = ''1.2'' then Some ParserV1_2
      else if protocol_version = ''1.3'' then Some ParserV1_3
      else if protocol_version = ''1.4'' then Some ParserV1_4
      else if protocol_version = ''1.5'' then Some ParserV1_5
      else if protocol_version = ''2.0'' then Some ParserV2_0
      else if protocol_version = ''2.1'' then Some ParserV2_1
      else if protocol_version = ''3.0'' then Some ParserV3_0
      else None)"

text \<open>
  The keys each parser reads with \<^verbatim>\<open>raw[key]\<close>: the field set a minimally valid sample of
  that version carries, besides the identity fields read with \<^verbatim>\<open>get\<close>.
\<close>

fun required_fields :: "Parser \<Rightarrow> string list" where
  "required_fields ParserV1_0 =
     [''version'', ''edition'', ''platform'', ''is_cma'', ''sample_time'', ''timezone'',
      ''num_hosts'', ''num_services'']"
| "required_fields ParserV1_1 =
     [''version'', ''edition'', ''platform'', ''is_cma'', ''sample_time'', ''timezone'',
      ''num_hosts'', ''num_hosts_excluded'', ''num_services'', ''num_services_excluded'']"
| "required_fields ParserV1_2 =
     [''version'', ''edition'', ''platform'', ''is_cma'', ''sample_time'', ''timezone'',
      ''num_hosts'', ''num_hosts_excluded'', ''num_services'', ''num_services_excluded'']"
| "required_fields ParserV1_3 =
     [''version'', ''edition'', ''platform'', ''is_cma'', ''sample_time'', ''timezone'',
      ''num_hosts'', ''num_hosts_excluded'', ''num_services'', ''num_services_excluded'']"
| "required_fields ParserV1_4 =
     [''version'', ''edition'', ''platform'', ''is_cma'', ''sample_time'', ''timezone'',
      ''num_hosts'', ''num_shadow_hosts'', ''num_hosts_excluded'', ''num_services'',
      ''num_services_excluded'']"
| "required_fields ParserV1_5 =
     [''version'', ''edition'', ''platform'', ''is_cma'', ''sample_time'', ''timezone'',
      ''num_hosts'', ''num_shadow_hosts'', ''num_hosts_excluded'', ''num_services'',
      ''num_services_excluded'']"
| "required_fields ParserV2_0 =
     [''version'', ''edition'', ''platform'', ''is_cma'', ''sample_time'', ''timezone'',
      ''num_hosts'', ''num_hosts_cloud'', ''num_hosts_shadow'', ''num_hosts_excluded'',
      ''num_services'', ''num_services_cloud'', ''num_services_shadow'',
      ''num_services_excluded'']"
| "required_fields ParserV2_1 =
     [''version'', ''edition'', ''platform'', ''is_cma'', ''sample_time'', ''timezone'',
      ''num_hosts'', ''num_hosts_cloud'', ''num_hosts_shadow'', ''num_hosts_excluded'',
      ''num_services'', ''num_services_cloud'', ''num_services_shadow'',
      ''num_services_excluded'']"
| "required_fields ParserV3_0 =
     [''version'', ''edition'', ''platform'', ''is_cma'', ''sample_time'', ''timezone'',
      ''num_hosts'', ''num_hosts_cloud'', ''num_hosts_shadow'', ''num_hosts_excluded'',
      ''num_services'', ''num_services_cloud'', ''num_services_shadow'',
      ''num_services_excluded'', ''num_synthetic_tests'', ''num_synthetic_tests_excluded'']"

text \<open>
  A raw sample is minimally valid for a parser when it carries the parser's field set, its
  platform is a string, the site hash it resolves to (its own, or else the caller's) is not
  empty, and an \<^verbatim>\<open>extensions\<close> entry, if there is one, is a dictionary.
\<close>

definition minimally_valid :: "Parser \<Rightarrow> string \<Rightarrow> (string \<times> raw) list \<Rightarrow> bool" where
  "minimally_valid p fallback d \<longleftrightarrow>
     list_all (\<lambda>k. map_of d k \<noteq> None) (required_fields p)
     \<and> (case map_of d ''platform'' of Some (RStr s) \<Rightarrow> True | _ \<Rightarrow> False)
     \<and> truthy (get d ''site_hash'' (RStr fallback))
     \<and> (case map_of d ''extensions'' of None \<Rightarrow> True | Some (RDict e) \<Rightarrow> True | _ \<Rightarrow> False)"

section \<open>Dates\<close>

text \<open>
  A naive \<^verbatim>\<open>datetime.datetime\<close>: its seven fields, compared field by field from the year
  down, as Python compares naive datetimes (the attribute \<^verbatim>\<open>fold\<close>, which comparison and
  hashing ignore, is left out). \<^verbatim>\<open>datetime\<close> takes the years 1 to 9999 only: the two
  operations of the source that make a new date, \<open>fromtimestamp\<close> and \<open>add_month\<close>, raise
  outside that range.
\<close>

datatype datetime =
  Datetime (year: int) (month: int) (day: int) (hour: int) (minute: int) (second: int)
    (microsecond: int)

definition dt_fields :: "datetime \<Rightarrow> int \<times> int \<times> int \<times> int \<times> int \<times> int \<times> int" where
  "dt_fields d = (year d, month d, day d, hour d, minute d, second d, microsecond d)"

instantiation datetime :: linorder
begin

definition less_eq_datetime :: "datetime \<Rightarrow> datetime \<Rightarrow> bool" where
  "less_eq_datetime a b \<longleftrightarrow> dt_fields a \<le> dt_fields b"

definition less_datetime :: "datetime \<Rightarrow> datetime \<Rightarrow> bool" where
  "less_datetime a b \<longleftrightarrow> dt_fields a < dt_fields b"

instance
proof
  fix x y z :: datetime
  show "(x < y) = (x \<le> y \<and> \<not> y \<le> x)"
    unfolding less_eq_datetime_def less_datetime_def by (rule less_le_not_le)
  show "x \<le> x"
    unfolding less_eq_datetime_def by simp
  show "x \<le> y \<Longrightarrow> y \<le> z \<Longrightarrow> x \<le> z"
    unfolding less_eq_datetime_def by (rule order_trans)
  show "x \<le> y \<Longrightarrow> y \<le> x \<Longrightarrow> x = y"
  proof -
    assume "x \<le> y" "y \<le> x"
    then have "dt_fields x = dt_fields y"
      unfolding less_eq_datetime_def by (rule antisym)
    then show "x = y"
      by (cases x, cases y) (simp add: dt_fields_def)
  qed
  show "x \<le> y \<or> y \<le> x"
    unfolding less_eq_datetime_def by (rule linear)
qed

end

text \<open>\<^verbatim>\<open>d.replace(hour=0, minute=0, second=0, microsecond=0)\<close>.\<close>

definition midnight :: "datetime \<Rightarrow> datetime" where
  "midnight d = Datetime (year d) (month d) (day d) 0 0 0 0"

definition isleap :: "int \<Rightarrow> bool" where
  "isleap y \<longleftrightarrow> y mod 4 = 0 \<and> (y mod 100 \<noteq> 0 \<or> y mod 400 = 0)"

text \<open>\<^verbatim>\<open>calendar.monthrange(year, month)[1]\<close>: the number of days of a month.\<close>

definition days_in_month :: "int \<Rightarrow> int \<Rightarrow> int" where
  "days_in_month y m =
     (if m = 2 then (if isleap y then 29 else 28)
      else if m \<in> {4, 6, 9, 11} then 30
      else 31)"

text \<open>
  \<^verbatim>\<open>d + relativedelta(months=+1)\<close> of \<^verbatim>\<open>dateutil\<close>: the month moves on by one, the year with
  it after December, and the day is clipped to the length of the new month; the time of
  day stays. The new date is made with \<^verbatim>\<open>d.replace\<close>, which raises \<^verbatim>\<open>ValueError\<close> for a year
  outside 1 to 9999.
\<close>

definition add_month :: "datetime \<Rightarrow> error + datetime" where
  "add_month d =
     (let (y, m) = (if month d + 1 > 12 then (year d + 1, month d + 1 - 12)
                    else (year d, month d + 1))
      in if y < 1 \<or> 9999 < y then Inl ValueError
         else Inr (Datetime y m (min (days_in_month y m) (day d))
                     (hour d) (minute d) (second d) (microsecond d)))"

text \<open>
  The civil date of a day number counted from 1970-01-01, and back. Both work on whole
  400-year eras that start on a first of March.
\<close>

definition civil_from_days :: "int \<Rightarrow> int \<times> int \<times> int" where
  "civil_from_days z =
     (let z1 = z + 719468;
          era = z1 div 146097;
          doe = z1 - era * 146097;
          yoe = (doe - doe div 1460 + doe div 36524 - doe div 146096) div 365;
          doy = doe - (365 * yoe + yoe div 4 - yoe div 100);
          mp = (5 * doy + 2) div 153;
          d = doy - (153 * mp + 2) div 5 + 1;
          m = (if mp < 10 then mp + 3 else mp - 9);
          y = yoe + era * 400 + (if m \<le> 2 then 1 else 0)
      in (y, m, d))"

definition days_from_civil :: "int \<Rightarrow> int \<Rightarrow> int \<Rightarrow> int" where
  "days_from_civil y m d =
     (let y1 = (if m \<le> 2 then y - 1 else y);
          era = y1 div 400;
          yoe = y1 - era * 400;
          doy = (153 * (if m > 2 then m - 3 else m + 9) + 2) div 5 + d - 1;
          doe = yoe * 365 + yoe div 4 - yoe div 100 + doy
      in era * 146097 + doe - 719468)"

text \<open>
  \<^verbatim>\<open>datetime.fromtimestamp(t)\<close> gives the local time at the instant \<open>t\<close>. The local zone is
  the parameter \<open>utcoffset\<close>: the seconds the zone is ahead of UTC at each instant, so a zone
  with daylight saving time is a function that changes its value. The local second count
  \<open>t + utcoffset t\<close> is cut into days of 86400 seconds, which is the midnight boundary, and
  the day number gives the civil date. A local year outside 1 to 9999 raises \<^verbatim>\<open>ValueError\<close>.
  (Far outside, where the time functions of the platform give up before the year is
  looked at, the interpreter raises \<^verbatim>\<open>OverflowError\<close> or \<^verbatim>\<open>OSError\<close>; the model has the one
  exception for all instants out of range.)
\<close>

definition fromtimestamp :: "(int \<Rightarrow> int) \<Rightarrow> int \<Rightarrow> error + datetime" where
  "fromtimestamp utcoffset t =
     (let local = t + utcoffset t;
          secs = local mod 86400;
          (y, m, d) = civil_from_days (local div 86400)
      in if y < 1 \<or> 9999 < y then Inl ValueError
         else Inr (Datetime y m d (secs div 3600) (secs mod 3600 div 60) (secs mod 60) 0))"

section \<open>Monthly averages\<close>

text \<open>
  \<^verbatim>\<open>SubscriptionDetailsForAggregation\<close>. Its fields are \<^verbatim>\<open>start\<close>, \<^verbatim>\<open>end\<close> and \<^verbatim>\<open>limit\<close> in the
  source; they carry the prefix \<open>agg_\<close> here, next to those of \<open>SubscriptionDetails\<close>. The
  limit is \<^verbatim>\<open>"unlimited"\<close>, a tuple (by its type the pair \<^verbatim>\<open>("free", 3)\<close>), an integer or
  \<^verbatim>\<open>None\<close>.
\<close>

datatype AggregationLimit =
    LimitUnlimited
  | LimitTuple string int
  | LimitInt int
  | LimitNone

record SubscriptionDetailsForAggregation =
  agg_start :: "int option"
  agg_end :: "int option"
  agg_limit :: AggregationLimit

text \<open>The dataclass constructor with its \<^verbatim>\<open>__post_init__\<close> check.\<close>

definition SubscriptionDetailsForAggregation_init ::
  "int option \<Rightarrow> int option \<Rightarrow> AggregationLimit \<Rightarrow> error + SubscriptionDetailsForAggregation"
  where
  "SubscriptionDetailsForAggregation_init s e l =
     (case l of
        LimitInt i \<Rightarrow>
          if i \<le> 0 then Inl ValueError
          else Inr \<lparr>agg_start = s, agg_end = e, agg_limit = l\<rparr>
      | _ \<Rightarrow> Inr \<lparr>agg_start = s, agg_end = e, agg_limit = l\<rparr>)"


definition real_limit :: "SubscriptionDetailsForAggregation \<Rightarrow> int option" where
  "real_limit sd =
     (case agg_limit sd of
        LimitTuple tag v \<Rightarrow> Some v
      | LimitInt i \<Rightarrow> Some i
      | _ \<Rightarrow> None)"

text \<open>\<^verbatim>\<open>SubscriptionDetailsForAggregation.for_report\<close>: a tuple limit is reported by its number.\<close>

definition details_for_report ::
  "SubscriptionDetailsForAggregation \<Rightarrow> SubscriptionDetailsForAggregation" where
  "details_for_report sd =
     \<lparr>agg_start = agg_start sd, agg_end = agg_end sd,
      agg_limit = (case agg_limit sd of LimitTuple tag v \<Rightarrow> LimitInt v | l \<Rightarrow> l)\<rparr>"

text \<open>
  \<^verbatim>\<open>MonthlyServiceAverage\<close>. The field \<^verbatim>\<open>num_services\<close> (a float by its annotation) is
  \<open>num_services'\<close> here and a rational: the integer sum of a day before aggregation, the
  exact quotient of a month after it.
\<close>

record MonthlyServiceAverage =
  sample_date :: datetime
  num_services' :: rat

text \<open>
  \<^verbatim>\<open>MonthlyServiceAverage.for_report\<close>: the pair of \<^verbatim>\<open>sample_time\<close> and \<^verbatim>\<open>num_services\<close>. The
  method \<^verbatim>\<open>sample_date.timestamp()\<close> of the standard library, which finds the instant of a
  local time in the zone of the process and may raise, is the parameter \<open>timestamp\<close>.
\<close>

definition average_for_report ::
  "(datetime \<Rightarrow> error + rat) \<Rightarrow> MonthlyServiceAverage \<Rightarrow> error + rat \<times> rat" where
  "average_for_report timestamp a =
     bnd (timestamp (sample_date a)) (\<lambda>sample_time. Inr (sample_time, num_services' a))"

text \<open>A list comprehension \<^verbatim>\<open>[a.for_report() for a in xs]\<close>: the first exception ends it.\<close>

fun averages_for_report ::
  "(datetime \<Rightarrow> error + rat) \<Rightarrow> MonthlyServiceAverage list \<Rightarrow> error + (rat \<times> rat) list" where
  "averages_for_report timestamp [] = Inr []"
| "averages_for_report timestamp (a # rest) =
     bnd (average_for_report timestamp a) (\<lambda>r.
     bnd (averages_for_report timestamp rest) (\<lambda>more. Inr (r # more)))"

subsection \<open>Daily buckets\<close>

text \<open>
  \<^verbatim>\<open>daily_services.setdefault(key, Counter()).update(num_services=n)\<close> on a dictionary kept
  in insertion order: the count of an existing key grows where it stands, a new key is
  appended with the count \<open>n\<close>.
\<close>

fun setdefault_update :: "'k \<Rightarrow> int \<Rightarrow> ('k \<times> int) list \<Rightarrow> ('k \<times> int) list" where
  "setdefault_update k n [] = [(k, n)]"
| "setdefault_update k n ((k', c) # rest) =
     (if k' = k then (k', c + n) # rest else (k', c) # setdefault_update k n rest)"

text \<open>
  The \<^verbatim>\<open>for\<close> loop of \<^verbatim>\<open>_calculate_daily_services\<close>, with the dictionary as an argument. The
  key of a sample is \<^verbatim>\<open>datetime(sample_date.year, sample_date.month, sample_date.day)\<close>, the
  midnight that begins its local day.
\<close>

fun daily_loop ::
  "(int \<Rightarrow> int) \<Rightarrow> (datetime \<times> int) list \<Rightarrow> (int \<times> int) list
     \<Rightarrow> error + (datetime \<times> int) list" where
  "daily_loop utcoffset daily [] = Inr daily"
| "daily_loop utcoffset daily ((t, n) # rest) =
     bnd (fromtimestamp utcoffset t) (\<lambda>dt.
       daily_loop utcoffset
         (setdefault_update (Datetime (year dt) (month dt) (day dt) 0 0 0 0) n daily) rest)"

text \<open>
  \<^verbatim>\<open>_calculate_daily_services(short_samples)\<close>. \<^verbatim>\<open>sorted\<close> orders the items by their key (the
  keys of a dictionary are distinct, so the counters are never compared), and the slice
  \<^verbatim>\<open>[-400:]\<close> keeps the last 400 items, or all of them when there are fewer.
\<close>

definition calculate_daily_services ::
  "(int \<Rightarrow> int) \<Rightarrow> (int \<times> int) list \<Rightarrow> error + MonthlyServiceAverage list" where
  "calculate_daily_services utcoffset short_samples =
     bnd (daily_loop utcoffset [] short_samples) (\<lambda>daily.
       let items = sort_key fst daily
       in Inr (map (\<lambda>(d, counter). \<lparr>sample_date = d, num_services' = of_int counter\<rparr>)
                 (drop (length items - 400) items)))"

subsection \<open>Month windows\<close>

text \<open>The counter of a month: its keys \<^verbatim>\<open>num_daily_services\<close> and \<^verbatim>\<open>num_services\<close>.\<close>

record MonthCounter =
  num_daily_services :: int
  sum_num_services :: int

fun month_update ::
  "datetime \<Rightarrow> int \<Rightarrow> (datetime \<times> MonthCounter) list \<Rightarrow> (datetime \<times> MonthCounter) list" where
  "month_update k n [] = [(k, \<lparr>num_daily_services = 1, sum_num_services = n\<rparr>)]"
| "month_update k n ((k', c) # rest) =
     (if k' = k
      then (k', \<lparr>num_daily_services = num_daily_services c + 1,
                 sum_num_services = sum_num_services c + n\<rparr>) # rest
      else (k', c) # month_update k n rest)"

text \<open>\<^verbatim>\<open>int(x)\<close> on a number: truncation towards zero.\<close>

definition trunc :: "rat \<Rightarrow> int" where
  "trunc q = (if 0 \<le> q then \<lfloor>q\<rfloor> else \<lceil>q\<rceil>)"

text \<open>
  The \<^verbatim>\<open>for\<close> loop of \<^verbatim>\<open>_calculate_averages\<close> over the daily buckets, with the loop state
  (\<open>month_start\<close>, \<open>month_end\<close>, \<open>monthly_services\<close>) as arguments. The window moves on by one
  month, once, when the day is not before \<open>month_end\<close>; \<^verbatim>\<open>break\<close> ends the loop with the
  dictionary as it is.
\<close>

fun month_loop ::
  "datetime \<Rightarrow> datetime \<Rightarrow> datetime \<Rightarrow> datetime \<Rightarrow> (datetime \<times> MonthCounter) list
     \<Rightarrow> MonthlyServiceAverage list \<Rightarrow> error + (datetime \<times> MonthCounter) list" where
  "month_loop today subscription_end_date month_start month_end monthly_services [] =
     Inr monthly_services"
| "month_loop today subscription_end_date month_start month_end monthly_services
     (daily_service # rest) =
     bnd (if sample_date daily_service \<ge> month_end
          then bnd (add_month month_end) (\<lambda>next_end. Inr (month_end, next_end))
          else Inr (month_start, month_end))
       (\<lambda>(month_start1, month_end1).
          if month_end1 \<ge> today \<or> month_end1 > subscription_end_date then Inr monthly_services
          else month_loop today subscription_end_date month_start1 month_end1
                 (if month_start1 \<le> sample_date daily_service
                     \<and> sample_date daily_service < month_end1
                  then month_update month_start1 (trunc (num_services' daily_service))
                         monthly_services
                  else monthly_services)
                 rest)"

text \<open>
  The second loop of \<^verbatim>\<open>_calculate_averages\<close>: one average per month of the dictionary, in
  its order. The division raises on a zero count.
\<close>

fun averages_of :: "(datetime \<times> MonthCounter) list \<Rightarrow> error + MonthlyServiceAverage list" where
  "averages_of [] = Inr []"
| "averages_of ((month_start, counter) # rest) =
     (if num_daily_services counter = 0 then Inl ZeroDivisionError
      else bnd (averages_of rest) (\<lambda>more.
        Inr (\<lparr>sample_date = month_start,
              num_services' = of_int (sum_num_services counter)
                              / of_int (num_daily_services counter)\<rparr> # more)))"

subsection \<open>The aggregation object\<close>

text \<open>
  An instance of \<^verbatim>\<open>MonthlyServiceAverages\<close>: its three attributes. The class attribute
  \<^verbatim>\<open>today\<close> is evaluated once, when the module is loaded; it is the parameter \<open>today\<close> of
  the methods that read it.
\<close>

record MonthlyServiceAverages =
  subscription_details :: SubscriptionDetailsForAggregation
  daily_services :: "MonthlyServiceAverage list"
  monthly_service_averages :: "MonthlyServiceAverage list"

text \<open>\<^verbatim>\<open>MonthlyServiceAverages.__init__\<close>: it raises when the daily bucketing does.\<close>

definition init ::
  "(int \<Rightarrow> int) \<Rightarrow> SubscriptionDetailsForAggregation \<Rightarrow> (int \<times> int) list
     \<Rightarrow> error + MonthlyServiceAverages" where
  "init utcoffset sd short_samples =
     bnd (calculate_daily_services utcoffset short_samples) (\<lambda>daily.
       Inr \<lparr>subscription_details = sd, daily_services = daily,
            monthly_service_averages = []\<rparr>)"

text \<open>
  The windows \<^verbatim>\<open>_calculate_averages\<close> fills for a subscription with start and end, as a
  function of the daily buckets: the start date, the end of the first window and the end
  date are made in this order, then the loop runs.
\<close>

definition monthly_services_of ::
  "(int \<Rightarrow> int) \<Rightarrow> datetime \<Rightarrow> int \<Rightarrow> int \<Rightarrow> MonthlyServiceAverage list
     \<Rightarrow> error + (datetime \<times> MonthCounter) list" where
  "monthly_services_of utcoffset today s e daily =
     bnd (fromtimestamp utcoffset s) (\<lambda>start_date.
     bnd (add_month (midnight start_date)) (\<lambda>month_end.
     bnd (fromtimestamp utcoffset e) (\<lambda>end_date.
       month_loop today (midnight end_date) (midnight start_date) month_end [] daily)))"

text \<open>
  \<^verbatim>\<open>_calculate_averages\<close>: it returns nothing and appends to the attribute
  \<^verbatim>\<open>_monthly_service_averages\<close> of the instance.
\<close>

definition calculate_averages ::
  "(int \<Rightarrow> int) \<Rightarrow> datetime \<Rightarrow> MonthlyServiceAverages \<Rightarrow> error + MonthlyServiceAverages" where
  "calculate_averages utcoffset today self =
     (if daily_services self = [] then Inr self
      else
        (case (agg_start (subscription_details self), agg_end (subscription_details self)) of
           (Some s, Some e) \<Rightarrow>
             bnd (monthly_services_of utcoffset today s e (daily_services self))
               (\<lambda>monthly_services.
             bnd (averages_of monthly_services)
               (\<lambda>new. Inr (self\<lparr>monthly_service_averages :=
                                   monthly_service_averages self @ new\<rparr>)))
         | _ \<Rightarrow> Inr self))"

definition get_last_service_report ::
  "(datetime \<Rightarrow> error + rat) \<Rightarrow> MonthlyServiceAverages \<Rightarrow> error + (rat \<times> rat) option" where
  "get_last_service_report timestamp self =
     (if monthly_service_averages self = [] then Inr None
      else bnd (average_for_report timestamp (last (monthly_service_averages self)))
             (\<lambda>r. Inr (Some r)))"

text \<open>\<^verbatim>\<open>max(xs, key=f)\<close> on a list that is not empty: the first item with the largest key.\<close>

fun max_by :: "('a \<Rightarrow> rat) \<Rightarrow> 'a \<Rightarrow> 'a list \<Rightarrow> 'a" where
  "max_by f best [] = best"
| "max_by f best (x # xs) = max_by f (if f x > f best then x else best) xs"

definition get_highest_service_report ::
  "(datetime \<Rightarrow> error + rat) \<Rightarrow> MonthlyServiceAverages \<Rightarrow> error + (rat \<times> rat) option" where
  "get_highest_service_report timestamp self =
     (case monthly_service_averages self of
        [] \<Rightarrow> Inr None
      | a # rest \<Rightarrow>
          bnd (average_for_report timestamp (max_by num_services' a rest)) (\<lambda>r. Inr (Some r)))"

text \<open>The \<^verbatim>\<open>for\<close> loop of \<^verbatim>\<open>_get_subscription_exceeded_first\<close>.\<close>

fun first_reaching :: "int \<Rightarrow> MonthlyServiceAverage list \<Rightarrow> MonthlyServiceAverage option" where
  "first_reaching bound [] = None"
| "first_reaching bound (service_average # rest) =
     (if num_services' service_average \<ge> of_int bound then Some service_average
      else first_reaching bound rest)"

definition get_subscription_exceeded_first ::
  "(datetime \<Rightarrow> error + rat) \<Rightarrow> MonthlyServiceAverages \<Rightarrow> error + (rat \<times> rat) option" where
  "get_subscription_exceeded_first timestamp self =
     (case real_limit (subscription_details self) of
        None \<Rightarrow> Inr None
      | Some bound \<Rightarrow>
          (case first_reaching bound (monthly_service_averages self) of
             None \<Rightarrow> Inr None
           | Some service_average \<Rightarrow>
               bnd (average_for_report timestamp service_average) (\<lambda>r. Inr (Some r))))"

text \<open>\<^verbatim>\<open>RawMonthlyServiceAggregation\<close>, the report \<^verbatim>\<open>get_aggregation\<close> returns.\<close>

record RawMonthlyServiceAggregation =
  report_subscription_details :: SubscriptionDetailsForAggregation
  report_daily_services :: "(rat \<times> rat) list"
  report_monthly_service_averages :: "(rat \<times> rat) list"
  last_service_report :: "(rat \<times> rat) option"
  highest_service_report :: "(rat \<times> rat) option"
  subscription_exceeded_first :: "(rat \<times> rat) option"

text \<open>
  \<^verbatim>\<open>get_aggregation\<close>: it runs \<^verbatim>\<open>_calculate_averages\<close> on the instance and reads the report off
  the instance as that call left it, the entries in the order written. The result is the
  report and the instance after the call.
\<close>

definition get_aggregation ::
  "(int \<Rightarrow> int) \<Rightarrow> (datetime \<Rightarrow> error + rat) \<Rightarrow> datetime \<Rightarrow> MonthlyServiceAverages
     \<Rightarrow> error + RawMonthlyServiceAggregation \<times> MonthlyServiceAverages" where
  "get_aggregation utcoffset timestamp today self =
     bnd (calculate_averages utcoffset today self) (\<lambda>self1.
     bnd (averages_for_report timestamp (daily_services self1)) (\<lambda>daily.
     bnd (averages_for_report timestamp (monthly_service_averages self1)) (\<lambda>monthly.
     bnd (get_last_service_report timestamp self1) (\<lambda>last_report.
     bnd (get_highest_service_report timestamp self1) (\<lambda>highest_report.
     bnd (get_subscription_exceeded_first timestamp self1) (\<lambda>exceeded_first.
       Inr (\<lparr>report_subscription_details = details_for_report (subscription_details self1),
             report_daily_services = daily,
             report_monthly_service_averages = monthly,
             last_service_report = last_report,
             highest_service_report = highest_report,
             subscription_exceeded_first = exceeded_first\<rparr>,
            self1)))))))"


subsection \<open>Reference notions\<close>





text \<open>
  Two zones for the examples: UTC, and a zone one hour ahead of UTC that keeps daylight
  saving time, two hours ahead, from 2024-03-31 01:00 UTC to 2024-10-27 01:00 UTC, as
  Europe/Berlin does in 2024.
\<close>

definition utc :: "int \<Rightarrow> int" where
  "utc t = 0"


text \<open>
  \<^verbatim>\<open>d.timestamp()\<close> in the zone UTC, as a rational. The method looks for the instant among
  those around the local time and one day before it, so the first day of the year 1
  raises \<^verbatim>\<open>ValueError\<close>.
\<close>

definition utc_timestamp :: "datetime \<Rightarrow> error + rat" where
  "utc_timestamp d =
     (if year d = 1 \<and> month d = 1 \<and> day d = 1 then Inl ValueError
      else Inr (of_int (days_from_civil (year d) (month d) (day d) * 86400
                        + hour d * 3600 + minute d * 60 + second d)
                + of_int (microsecond d) / 1000000))"

section \<open>Decimal numerals\<close>


lemma digit_char_not_minus: "n < 10 \<Longrightarrow> digit_char n \<noteq> CHR ''-''"
proof -
  assume "n < 10"
  then have "n \<in> {0,1,2,3,4,5,6,7,8,9}" by auto
  then show ?thesis by (auto simp: digit_char_def)
qed


lemma str_nat_first: "str_nat n \<noteq> [] \<and> hd (str_nat n) \<noteq> CHR ''-''"
proof (induction n rule: str_nat.induct)
  case (1 n)
  show ?case
  proof (cases "n < 10")
    case True
    then show ?thesis
      by (subst (1 2) str_nat.simps) (simp add: digit_char_not_minus)
  next
    case False
    with 1 show ?thesis by (subst (1 2) str_nat.simps) simp
  qed
qed



section \<open>Samples: a minimally valid record parses\<close>

lemma parse_from_sample_ok:
  assumes "case map_of d ''extensions'' of None \<Rightarrow> True | Some (RDict e) \<Rightarrow> True | _ \<Rightarrow> False"
  shows "\<exists>x. parse_from_sample (RDict d) = Inr x"
  using assms by (auto simp: parse_from_sample_def get_def split: option.splits raw.splits)

lemma minimally_valid_parts:
  assumes "minimally_valid p fallback d"
  shows "\<exists>x. parse_from_sample (RDict d) = Inr x"
    and "\<exists>pl. getitem d ''platform'' = Inr (RStr pl)"
    and "\<forall>k \<in> set (required_fields p). \<exists>v. getitem d k = Inr v"
    and "truthy (get d ''site_hash'' (RStr fallback))"
proof -
  show "\<exists>x. parse_from_sample (RDict d) = Inr x"
    using assms parse_from_sample_ok unfolding minimally_valid_def by blast
  show "\<exists>pl. getitem d ''platform'' = Inr (RStr pl)"
    using assms
    by (auto simp: minimally_valid_def getitem_def split: option.splits raw.splits)
  show "\<forall>k \<in> set (required_fields p). \<exists>v. getitem d k = Inr v"
    using assms by (auto simp: minimally_valid_def getitem_def list_all_iff)
  show "truthy (get d ''site_hash'' (RStr fallback))"
    using assms by (simp add: minimally_valid_def)
qed

lemma parse_sample_v1_0_ok:
  assumes "minimally_valid ParserV1_0 fallback d"
  shows "\<exists>s. parse_sample_v1_0 caller_id fallback (RDict d) = Inr s \<and> instance_id s = caller_id"
proof -
  note mv = minimally_valid_parts [OF assms]
  from mv(1) obtain x where x: "parse_from_sample (RDict d) = Inr x" by blast
  from mv(2) obtain pl where pl: "getitem d ''platform'' = Inr (RStr pl)" by blast
  from mv(3) obtain v1 v2 v3 v4 v5 v6 v7 where
    "getitem d ''version'' = Inr v1" "getitem d ''edition'' = Inr v2"
    "getitem d ''is_cma'' = Inr v3" "getitem d ''sample_time'' = Inr v4"
    "getitem d ''timezone'' = Inr v5" "getitem d ''num_hosts'' = Inr v6"
    "getitem d ''num_services'' = Inr v7"
    by auto
  with x pl mv(4) show ?thesis
    by (simp add: parse_sample_v1_0_def bnd_def Let_def)
qed

lemma parse_sample_v1_1_ok:
  assumes "minimally_valid p fallback d" "p \<in> {ParserV1_1, ParserV1_2, ParserV1_3}"
  shows "\<exists>s. parse_sample_v1_1 caller_id fallback (RDict d) = Inr s \<and> instance_id s = caller_id"
proof -
  note mv = minimally_valid_parts [OF assms(1)]
  from mv(1) obtain x where x: "parse_from_sample (RDict d) = Inr x" by blast
  from mv(2) obtain pl where pl: "getitem d ''platform'' = Inr (RStr pl)" by blast
  from mv(3) assms(2) obtain v1 v2 v3 v4 v5 v6 v7 v8 v9 where
    "getitem d ''version'' = Inr v1" "getitem d ''edition'' = Inr v2"
    "getitem d ''is_cma'' = Inr v3" "getitem d ''sample_time'' = Inr v4"
    "getitem d ''timezone'' = Inr v5" "getitem d ''num_hosts'' = Inr v6"
    "getitem d ''num_services'' = Inr v7" "getitem d ''num_hosts_excluded'' = Inr v8"
    "getitem d ''num_services_excluded'' = Inr v9"
    by auto
  with x pl mv(4) show ?thesis
    by (simp add: parse_sample_v1_1_def bnd_def Let_def)
qed

lemma parse_sample_v1_4_ok:
  assumes "minimally_valid ParserV1_4 fallback d"
  shows "\<exists>s. parse_sample_v1_4 caller_id fallback (RDict d) = Inr s \<and> instance_id s = caller_id"
proof -
  note mv = minimally_valid_parts [OF assms]
  from mv(1) obtain x where x: "parse_from_sample (RDict d) = Inr x" by blast
  from mv(2) obtain pl where pl: "getitem d ''platform'' = Inr (RStr pl)" by blast
  from mv(3) obtain v1 v2 v3 v4 v5 v6 v7 v8 v9 v10 where
    "getitem d ''version'' = Inr v1" "getitem d ''edition'' = Inr v2"
    "getitem d ''is_cma'' = Inr v3" "getitem d ''sample_time'' = Inr v4"
    "getitem d ''timezone'' = Inr v5" "getitem d ''num_hosts'' = Inr v6"
    "getitem d ''num_services'' = Inr v7" "getitem d ''num_hosts_excluded'' = Inr v8"
    "getitem d ''num_services_excluded'' = Inr v9" "getitem d ''num_shadow_hosts'' = Inr v10"
    by auto
  with x pl mv(4) show ?thesis
    by (simp add: parse_sample_v1_4_def bnd_def Let_def)
qed

lemma falsy_instance_id:
  assumes "map_of d ''instance_id'' = None \<or> map_of d ''instance_id'' = Some (RStr [])"
  shows "\<not> truthy (get d ''instance_id'' RNone)"
  using assms by (auto simp: get_def)

lemma empty_site_hash:
  assumes "map_of d ''site_hash'' = Some (RStr [])"
  shows "\<not> truthy (get d ''site_hash'' (RStr fallback))"
  using assms by (simp add: get_def)

section \<open>Daily buckets: the dictionary of days\<close>















section \<open>Month windows: what the loop keeps\<close>

lemma datetime_less_eq_code:
  "Datetime y m d h mi s u \<le> Datetime y' m' d' h' mi' s' u' \<longleftrightarrow>
     y < y' \<or> (y = y' \<and> (m < m' \<or> (m = m' \<and> (d < d' \<or> (d = d' \<and> (h < h' \<or> (h = h' \<and>
       (mi < mi' \<or> (mi = mi' \<and> (s < s' \<or> (s = s' \<and> u \<le> u')))))))))))"
  by (auto simp: less_eq_datetime_def dt_fields_def less_eq_prod_def less_prod_def)






lemma add_month_error: "add_month d = Inl err \<Longrightarrow> err = ValueError"
  by (auto simp: add_month_def Let_def split: if_splits prod.splits)



lemma fromtimestamp_error: "fromtimestamp utcoffset t = Inl err \<Longrightarrow> err = ValueError"
  by (auto simp: fromtimestamp_def Let_def split: prod.splits if_splits)






declare month_loop.simps(2) [simp del]














section \<open>Subscription limits: report round trip\<close>



section \<open>Protocol version\<close>

text \<open>
  C7. \<^verbatim>\<open>parse_protocol_version\<close> returns the \<^verbatim>\<open>VERSION\<close> string exactly when the input is a
  mapping whose \<^verbatim>\<open>VERSION\<close> field is a string among the nine supported literals; any other
  string is a value error; a non-mapping, a missing field or a field that is not a string
  is a type error.
\<close>

theorem parse_protocol_version_cases:
  "(parse_protocol_version raw = Inr v \<longleftrightarrow>
      (\<exists>d. raw = RDict d \<and> map_of d ''VERSION'' = Some (RStr v)
         \<and> v \<in> set [''1.0'', ''1.1'', ''1.2'', ''1.3'', ''1.4'', ''1.5'', ''2.0'', ''2.1'', ''3.0'']))
   \<and> ((\<exists>d s. raw = RDict d \<and> map_of d ''VERSION'' = Some (RStr s)
         \<and> s \<notin> set [''1.0'', ''1.1'', ''1.2'', ''1.3'', ''1.4'', ''1.5'', ''2.0'', ''2.1'', ''3.0''])
       \<longrightarrow> parse_protocol_version raw = Inl ValueError)
   \<and> (((\<forall>d. raw \<noteq> RDict d)
        \<or> (\<exists>d. raw = RDict d \<and> (\<forall>s. map_of d ''VERSION'' \<noteq> Some (RStr s))))
       \<longrightarrow> parse_protocol_version raw = Inl TypeError)"
proof (intro conjI)
  have mv: "match_version s = Inr v \<longleftrightarrow>
      s = v \<and> v \<in> set [''1.0'', ''1.1'', ''1.2'', ''1.3'', ''1.4'', ''1.5'', ''2.0'', ''2.1'', ''3.0'']"
    for s
    by (auto simp: match_version_def)
  show "parse_protocol_version raw = Inr v \<longleftrightarrow>
      (\<exists>d. raw = RDict d \<and> map_of d ''VERSION'' = Some (RStr v)
         \<and> v \<in> set [''1.0'', ''1.1'', ''1.2'', ''1.3'', ''1.4'', ''1.5'', ''2.0'', ''2.1'', ''3.0''])"
  proof (cases raw)
    case (RDict d)
    show ?thesis
    proof (cases "map_of d ''VERSION''")
      case None
      with RDict show ?thesis by simp
    next
      case (Some x)
      with RDict show ?thesis by (cases x) (simp_all add: mv)
    qed
  qed simp_all
next
  show "(\<exists>d s. raw = RDict d \<and> map_of d ''VERSION'' = Some (RStr s)
         \<and> s \<notin> set [''1.0'', ''1.1'', ''1.2'', ''1.3'', ''1.4'', ''1.5'', ''2.0'', ''2.1'', ''3.0''])
       \<longrightarrow> parse_protocol_version raw = Inl ValueError"
    by (auto simp: match_version_def)
next
  show "((\<forall>d. raw \<noteq> RDict d)
        \<or> (\<exists>d. raw = RDict d \<and> (\<forall>s. map_of d ''VERSION'' \<noteq> Some (RStr s))))
       \<longrightarrow> parse_protocol_version raw = Inl TypeError"
    by (cases raw) (auto split: option.splits raw.splits)
qed

theorem parse_protocol_version_cases_witness:
  "parse_protocol_version (RDict [(''VERSION'', RStr ''2.1''), (''history'', RList [])]) = Inr ''2.1''
   \<and> parse_protocol_version (RDict [(''VERSION'', RStr ''1.6'')]) = Inl ValueError
   \<and> parse_protocol_version (RDict [(''VERSION'', RInt 3)]) = Inl TypeError
   \<and> parse_protocol_version (RDict [(''history'', RList [])]) = Inl TypeError
   \<and> parse_protocol_version (RStr ''3.0'') = Inl TypeError"
  using parse_protocol_version_cases
          [of "RDict [(''VERSION'', RStr ''2.1''), (''history'', RList [])]" "''2.1''"]
    parse_protocol_version_cases [of "RDict [(''VERSION'', RStr ''1.6'')]" "''1.6''"]
    parse_protocol_version_cases [of "RDict [(''VERSION'', RInt 3)]" "[]"]
    parse_protocol_version_cases [of "RDict [(''history'', RList [])]" "[]"]
    parse_protocol_version_cases [of "RStr ''3.0''" "[]"]
  by simp

section \<open>Subscription details: the legacy pair\<close>

text \<open>
  C9. Parsing the legacy two-element form (source tag, detail mapping) gives the same
  result, value or exception, as parsing the detail mapping itself, whatever the tag.
\<close>

theorem parse_subscription_details_ignores_source:
  "parse_subscription_details (RList [s, RDict d]) = parse_subscription_details (RDict d)"
  by simp


section \<open>Samples: what the versions require\<close>

text \<open>
  C5. On a raw sample mapping, the parsers of versions 1.5, 2.0, 2.1 and 3.0 raise a value
  error when \<^verbatim>\<open>instance_id\<close> is absent or the empty string; the parsers of versions 1.0 to
  1.4 succeed on a minimally valid sample and give it the caller's instance id, whatever
  the record itself carries under \<^verbatim>\<open>instance_id\<close>.
\<close>

theorem instance_id_by_version:
  "(p \<in> {ParserV1_5, ParserV2_0, ParserV2_1, ParserV3_0}
      \<and> (map_of d ''instance_id'' = None \<or> map_of d ''instance_id'' = Some (RStr []))
    \<longrightarrow> parse_sample UUID p caller_id fallback (RDict d) = Inl ValueError)
   \<and> (p \<in> {ParserV1_0, ParserV1_1, ParserV1_2, ParserV1_3, ParserV1_4}
      \<and> minimally_valid p fallback d
    \<longrightarrow> (\<exists>s. parse_sample UUID p caller_id fallback (RDict d) = Inr s
            \<and> instance_id s = caller_id))"
proof (intro conjI impI)
  assume a: "p \<in> {ParserV1_5, ParserV2_0, ParserV2_1, ParserV3_0}
      \<and> (map_of d ''instance_id'' = None \<or> map_of d ''instance_id'' = Some (RStr []))"
  then have "\<not> truthy (get d ''instance_id'' RNone)" using falsy_instance_id by blast
  with a show "parse_sample UUID p caller_id fallback (RDict d) = Inl ValueError"
    by (auto simp: parse_sample_v1_5_def parse_sample_v2_0_def parse_sample_v3_0_def)
next
  assume a: "p \<in> {ParserV1_0, ParserV1_1, ParserV1_2, ParserV1_3, ParserV1_4}
      \<and> minimally_valid p fallback d"
  then consider "p = ParserV1_0" | "p \<in> {ParserV1_1, ParserV1_2, ParserV1_3}" | "p = ParserV1_4"
    by auto
  then show "\<exists>s. parse_sample UUID p caller_id fallback (RDict d) = Inr s
            \<and> instance_id s = caller_id"
  proof cases
    case 1
    with a show ?thesis using parse_sample_v1_0_ok [of fallback d caller_id] by simp
  next
    case 2
    with a show ?thesis using parse_sample_v1_1_ok [of p fallback d caller_id] by auto
  next
    case 3
    with a show ?thesis using parse_sample_v1_4_ok [of fallback d caller_id] by simp
  qed
qed

theorem instance_id_by_version_witness:
  "parse_sample (\<lambda>r. Inr (0::nat)) ParserV3_0 (Some 7) ''site''
      (RDict [(''site_hash'', RStr ''abc''), (''version'', RStr ''2.3.0'')]) = Inl ValueError
   \<and> parse_sample (\<lambda>r. Inr (0::nat)) ParserV1_5 (Some 7) ''site''
      (RDict [(''instance_id'', RStr []), (''site_hash'', RStr ''abc'')]) = Inl ValueError
   \<and> (\<exists>s. parse_sample (\<lambda>r. Inr (0::nat)) ParserV1_0 (Some 7) ''site''
        (RDict [(''instance_id'', RStr ''4b6f0ea0''), (''version'', RStr ''2.0.0''),
                (''edition'', RStr ''cee''), (''platform'', RStr ''Ubuntu''),
                (''is_cma'', RBool False), (''sample_time'', RInt 1700000000),
                (''timezone'', RStr ''UTC''), (''num_hosts'', RInt 5),
                (''num_services'', RInt 50)]) = Inr s
        \<and> instance_id s = Some 7)"
proof -
  have mv: "minimally_valid ParserV1_0 ''site''
        [(''instance_id'', RStr ''4b6f0ea0''), (''version'', RStr ''2.0.0''),
         (''edition'', RStr ''cee''), (''platform'', RStr ''Ubuntu''),
         (''is_cma'', RBool False), (''sample_time'', RInt 1700000000),
         (''timezone'', RStr ''UTC''), (''num_hosts'', RInt 5),
         (''num_services'', RInt 50)]"
    by (simp add: minimally_valid_def get_def)
  show ?thesis
    using instance_id_by_version [of ParserV3_0
        "[(''site_hash'', RStr ''abc''), (''version'', RStr ''2.3.0'')]"
        "\<lambda>r. Inr (0::nat)" "Some 7" "''site''"]
      instance_id_by_version [of ParserV1_5
        "[(''instance_id'', RStr []), (''site_hash'', RStr ''abc'')]"
        "\<lambda>r. Inr (0::nat)" "Some 7" "''site''"]
      instance_id_by_version [of ParserV1_0
        "[(''instance_id'', RStr ''4b6f0ea0''), (''version'', RStr ''2.0.0''),
          (''edition'', RStr ''cee''), (''platform'', RStr ''Ubuntu''),
          (''is_cma'', RBool False), (''sample_time'', RInt 1700000000),
          (''timezone'', RStr ''UTC''), (''num_hosts'', RInt 5),
          (''num_services'', RInt 50)]"
        "\<lambda>r. Inr (0::nat)" "Some 7" "''site''"]
      mv
    by simp
qed

text \<open>
  C10. For every parser, a raw record whose \<^verbatim>\<open>site_hash\<close> key is present with the empty
  string is rejected with a value error, also when the caller's fallback site hash is not
  empty: the fallback stands in for a missing key only.
\<close>

theorem empty_site_hash_rejected:
  assumes "map_of d ''site_hash'' = Some (RStr [])"
  shows "parse_sample UUID p caller_id fallback (RDict d) = Inl ValueError"
proof -
  have "\<not> truthy (get d ''site_hash'' (RStr fallback))"
    using assms by (rule empty_site_hash)
  then show ?thesis
    by (cases p)
      (simp_all add: parse_sample_v1_0_def parse_sample_v1_1_def parse_sample_v1_4_def
         parse_sample_v1_5_def parse_sample_v2_0_def parse_sample_v3_0_def Let_def)
qed

theorem empty_site_hash_rejected_witness:
  "map_of [(''instance_id'', RStr ''4b6f0ea0''), (''site_hash'', RStr [])] ''site_hash''
     = Some (RStr [])
   \<and> parse_sample (\<lambda>r. Inr (0::nat)) ParserV3_0 None ''fallback-site''
       (RDict [(''instance_id'', RStr ''4b6f0ea0''), (''site_hash'', RStr [])]) = Inl ValueError"
proof -
  have h: "map_of [(''instance_id'', RStr ''4b6f0ea0''), (''site_hash'', RStr [])] ''site_hash''
     = Some (RStr [])" by simp
  show ?thesis
    using h empty_site_hash_rejected [OF h, of "\<lambda>r. Inr (0::nat)" ParserV3_0 None
        "''fallback-site''"]
    by simp
qed

section \<open>Daily bucketing\<close>



section \<open>Monthly averages\<close>






text \<open>
  C1. The claim asks that a day inside an admissible window is counted in that window
  also after a gap of more than a month. The loop moves the window on by one month per
  day at most. Subscription from 2024-01-01 to 2025-01-01, today 2025-06-01, buckets on
  2024-01-15 and 2024-03-15: the March window, two steps after the first, contains the
  second day, ends before today and before the subscription end; yet on that day the
  loop stands at the February window, and the dictionary of months holds January alone.
\<close>

theorem month_gap_loses_day:
  "calculate_daily_services utc [(1705276800, 10), (1710460800, 20)]
     = Inr [\<lparr>sample_date = Datetime 2024 1 15 0 0 0 0, num_services' = 10\<rparr>,
            \<lparr>sample_date = Datetime 2024 3 15 0 0 0 0, num_services' = 20\<rparr>]
   \<and> fromtimestamp utc 1704067200 = Inr (Datetime 2024 1 1 0 0 0 0)
   \<and> fromtimestamp utc 1735689600 = Inr (Datetime 2025 1 1 0 0 0 0)
   \<and> add_month (midnight (Datetime 2024 1 1 0 0 0 0)) = Inr (Datetime 2024 2 1 0 0 0 0)
   \<and> add_month (Datetime 2024 2 1 0 0 0 0) = Inr (Datetime 2024 3 1 0 0 0 0)
   \<and> add_month (Datetime 2024 3 1 0 0 0 0) = Inr (Datetime 2024 4 1 0 0 0 0)
   \<and> Datetime 2024 3 1 0 0 0 0 \<le> Datetime 2024 3 15 0 0 0 0
   \<and> Datetime 2024 3 15 0 0 0 0 < Datetime 2024 4 1 0 0 0 0
   \<and> Datetime 2024 4 1 0 0 0 0 < Datetime 2025 6 1 12 0 0 0
   \<and> Datetime 2024 4 1 0 0 0 0 \<le> midnight (Datetime 2025 1 1 0 0 0 0)
   \<and> monthly_services_of utc (Datetime 2025 6 1 12 0 0 0) 1704067200 1735689600
         [\<lparr>sample_date = Datetime 2024 1 15 0 0 0 0, num_services' = 10\<rparr>,
          \<lparr>sample_date = Datetime 2024 3 15 0 0 0 0, num_services' = 20\<rparr>]
     = Inr [(Datetime 2024 1 1 0 0 0 0, \<lparr>num_daily_services = 1, sum_num_services = 10\<rparr>)]
   \<and> init utc \<lparr>agg_start = Some 1704067200, agg_end = Some 1735689600, agg_limit = LimitNone\<rparr>
        [(1705276800, 10), (1710460800, 20)]
     = Inr \<lparr>subscription_details =
              \<lparr>agg_start = Some 1704067200, agg_end = Some 1735689600,
                 agg_limit = LimitNone\<rparr>,
            daily_services =
              [\<lparr>sample_date = Datetime 2024 1 15 0 0 0 0, num_services' = 10\<rparr>,
               \<lparr>sample_date = Datetime 2024 3 15 0 0 0 0, num_services' = 20\<rparr>],
            monthly_service_averages = []\<rparr>
   \<and> calculate_averages utc (Datetime 2025 6 1 12 0 0 0)
       \<lparr>subscription_details =
          \<lparr>agg_start = Some 1704067200, agg_end = Some 1735689600, agg_limit = LimitNone\<rparr>,
        daily_services =
          [\<lparr>sample_date = Datetime 2024 1 15 0 0 0 0, num_services' = 10\<rparr>,
           \<lparr>sample_date = Datetime 2024 3 15 0 0 0 0, num_services' = 20\<rparr>],
        monthly_service_averages = []\<rparr>
     = Inr \<lparr>subscription_details =
              \<lparr>agg_start = Some 1704067200, agg_end = Some 1735689600,
                 agg_limit = LimitNone\<rparr>,
            daily_services =
              [\<lparr>sample_date = Datetime 2024 1 15 0 0 0 0, num_services' = 10\<rparr>,
               \<lparr>sample_date = Datetime 2024 3 15 0 0 0 0, num_services' = 20\<rparr>],
            monthly_service_averages =
              [\<lparr>sample_date = Datetime 2024 1 1 0 0 0 0, num_services' = 10\<rparr>]\<rparr>"
  by code_simp

text \<open>
  C8. The claim asks that two calls of \<^verbatim>\<open>get_aggregation\<close> on one instance return equal
  reports. Each call appends the months to the list the instance holds since \<^verbatim>\<open>__init__\<close>:
  the second report lists every month twice.
\<close>

theorem get_aggregation_twice:
  "init utc \<lparr>agg_start = Some 1704067200, agg_end = Some 1711929600, agg_limit = LimitNone\<rparr>
      [(1705276800, 10)]
   = Inr \<lparr>subscription_details =
            \<lparr>agg_start = Some 1704067200, agg_end = Some 1711929600, agg_limit = LimitNone\<rparr>,
          daily_services =
            [\<lparr>sample_date = Datetime 2024 1 15 0 0 0 0, num_services' = 10\<rparr>],
          monthly_service_averages = []\<rparr>
   \<and> get_aggregation utc utc_timestamp (Datetime 2024 6 1 9 30 0 0)
       \<lparr>subscription_details =
          \<lparr>agg_start = Some 1704067200, agg_end = Some 1711929600, agg_limit = LimitNone\<rparr>,
        daily_services =
          [\<lparr>sample_date = Datetime 2024 1 15 0 0 0 0, num_services' = 10\<rparr>],
        monthly_service_averages = []\<rparr>
   = Inr (\<lparr>report_subscription_details =
             \<lparr>agg_start = Some 1704067200, agg_end = Some 1711929600, agg_limit = LimitNone\<rparr>,
           report_daily_services = [(1705276800, 10)],
           report_monthly_service_averages = [(1704067200, 10)],
           last_service_report = Some (1704067200, 10),
           highest_service_report = Some (1704067200, 10),
           subscription_exceeded_first = None\<rparr>,
          \<lparr>subscription_details =
             \<lparr>agg_start = Some 1704067200, agg_end = Some 1711929600, agg_limit = LimitNone\<rparr>,
           daily_services =
             [\<lparr>sample_date = Datetime 2024 1 15 0 0 0 0, num_services' = 10\<rparr>],
           monthly_service_averages =
             [\<lparr>sample_date = Datetime 2024 1 1 0 0 0 0, num_services' = 10\<rparr>]\<rparr>)
   \<and> get_aggregation utc utc_timestamp (Datetime 2024 6 1 9 30 0 0)
       \<lparr>subscription_details =
          \<lparr>agg_start = Some 1704067200, agg_end = Some 1711929600, agg_limit = LimitNone\<rparr>,
        daily_services =
          [\<lparr>sample_date = Datetime 2024 1 15 0 0 0 0, num_services' = 10\<rparr>],
        monthly_service_averages =
          [\<lparr>sample_date = Datetime 2024 1 1 0 0 0 0, num_services' = 10\<rparr>]\<rparr>
   = Inr (\<lparr>report_subscription_details =
             \<lparr>agg_start = Some 1704067200, agg_end = Some 1711929600, agg_limit = LimitNone\<rparr>,
           report_daily_services = [(1705276800, 10)],
           report_monthly_service_averages = [(1704067200, 10), (1704067200, 10)],
           last_service_report = Some (1704067200, 10),
           highest_service_report = Some (1704067200, 10),
           subscription_exceeded_first = None\<rparr>,
          \<lparr>subscription_details =
             \<lparr>agg_start = Some 1704067200, agg_end = Some 1711929600, agg_limit = LimitNone\<rparr>,
           daily_services =
             [\<lparr>sample_date = Datetime 2024 1 15 0 0 0 0, num_services' = 10\<rparr>],
           monthly_service_averages =
             [\<lparr>sample_date = Datetime 2024 1 1 0 0 0 0, num_services' = 10\<rparr>,
              \<lparr>sample_date = Datetime 2024 1 1 0 0 0 0, num_services' = 10\<rparr>]\<rparr>)"
  by code_simp

end
